theory Spec2Isabelle
  imports Main "HOL-Library.Word"
begin

section \<open>ubipoller: the poll-extract-publish cycle of main.go\<close>

text \<open>
  A shallow embedding of \<^verbatim>\<open>main.go\<close>. Every call that leaves the program (the wall
  clock, the HTTP transport, the JSON codec, the MQTT client, the logger) is either a
  field of the environment \<open>env\<close>, which fixes how the outside answers, or an entry in
  the \<open>world\<close>, which records the calls the program has made, in order.

  Modelled: \<^verbatim>\<open>extractLatestLatencyMetrics\<close>, \<^verbatim>\<open>GetISPMetrics\<close>, \<^verbatim>\<open>NewMQTTPublisher\<close>,
  \<^verbatim>\<open>NewApp\<close>, \<^verbatim>\<open>PublishLatency\<close>, \<^verbatim>\<open>Disconnect\<close>, \<^verbatim>\<open>fetchAndPublishMetrics\<close> and
  \<^verbatim>\<open>Run\<close>. Left out: \<^verbatim>\<open>main\<close> (argument parsing, logger set-up, the goroutine that
  cancels the context on a signal), the legacy \<^verbatim>\<open>Publish\<close>, which nothing calls, and the
  connection callbacks of \<^verbatim>\<open>NewMQTTPublisher\<close>, which only log.
\<close>

subsection \<open>Data model\<close>

text \<open>Go's \<^verbatim>\<open>int\<close> on the 64-bit build targets, \<^verbatim>\<open>time.Time\<close> as nanoseconds since the epoch.\<close>

type_synonym go_int = "64 word"
type_synonym time = int

record WANData =
  AvgLatency :: go_int
  DownloadKbps :: go_int
  Downtime :: go_int
  ISPAsn :: string
  ISPName :: string
  MaxLatency :: go_int
  PacketLoss :: go_int
  UploadKbps :: go_int
  Uptime :: go_int

record PeriodData =
  WAN :: WANData

record Period =
  PData :: PeriodData
  MetricTime :: string
  Version :: string

record MetricData =
  MetricType :: string
  Periods :: "Period list"
  SiteId :: string
  HostId :: string

record ISPMetrics =
  Data :: "MetricData list"

text \<open>
  \<^verbatim>\<open>LatencyMetric\<close>: its fields carry the prefix \<open>lm_\<close> where the name is already a field
  of \<^verbatim>\<open>MetricData\<close> or \<^verbatim>\<open>WANData\<close>.
\<close>

record LatencyMetric =
  lm_SiteId :: string
  lm_HostId :: string
  Timestamp :: string
  lm_AvgLatency :: go_int
  lm_MaxLatency :: go_int
  lm_ISPName :: string
  lm_ISPAsn :: string
  PublishedAt :: time

text \<open>
  The configuration and the application. The HTTP client, the broker client and the
  logger that the Go structs point to are the world below; \<^verbatim>\<open>time.Duration\<close> is a
  64-bit signed count of nanoseconds. \<^verbatim>\<open>App.mqttPublisher\<close> is a pointer that
  \<^verbatim>\<open>Run\<close> tests against nil, hence an option.
\<close>

record CLI =
  ApiKey :: string
  ApiURL :: string
  cli_MetricType :: string
  MqttBroker :: string
  MqttClientID :: string
  MqttTopic :: string
  MqttUsername :: string
  MqttPassword :: string
  Interval :: "64 word"
  LogLevel :: string

record UbiquitiClient =
  apiKey :: string
  baseURL :: string

record MQTTPublisher =
  pub_topic :: string

record App =
  cli :: CLI
  ubiquitiClient :: UbiquitiClient
  mqttPublisher :: "MQTTPublisher option"

subsection \<open>Errors\<close>

text \<open>
  An \<open>error\<close> is a Go error value: one constructor per \<^verbatim>\<open>fmt.Errorf\<close> of the source,
  with the wrapped cause as argument. A \<open>panic\<close> is a run-time panic, which unwinds
  through every caller: a function that can panic returns \<open>Inl\<close> of the panic
  (and of the world at that moment, when it works on the world).
\<close>

datatype error =
    CreateRequestFailed string
  | MakeRequestFailed string
  | ApiRequestFailed go_int string
  | DecodeResponseFailed string
  | FetchISPMetricsFailed error
  | MarshalLatencyFailed string
  | PublishLatencyFailed string
  | ConnectBrokerFailed string
  | CreatePublisherFailed error

datatype panic = IndexOutOfRange | NilPointerDereference | NonPositiveTickerInterval

subsection \<open>The outside world\<close>

datatype go_context = Live | Cancelled

record request =
  Method :: string
  URL :: string
  Header :: "(string \<times> string) list"
  req_ctx :: go_context

record response =
  StatusCode :: go_int
  Body :: string

record mqtt_message =
  topic :: string
  qos :: nat
  retained :: bool
  payload :: string

record token =
  Wait :: bool
  Error :: "string option"

text \<open>
  A JSON value, as far as \<^verbatim>\<open>LatencyMetric\<close> needs it: strings, integers, and objects as
  the list of their members in order.
\<close>

datatype json = JString string | JNumber int | JObject "(string \<times> json) list"

datatype level = DebugLevel | InfoLevel | WarnLevel | ErrorLevel

datatype log_value = LStr string | LInt go_int | LLen nat | LDur int | LErr error

record log_entry =
  log_level :: level
  log_msg :: string
  log_fields :: "(string \<times> log_value) list"

text \<open>
  The environment: \<open>now k\<close> is the \<open>k\<close>-th reading of \<^verbatim>\<open>time.Now()\<close>;
  \<open>http_NewRequest\<close> gives the error of \<^verbatim>\<open>http.NewRequestWithContext\<close> for a method and
  URL, if any; \<open>http_Do\<close> answers a request given the requests made before it;
  \<open>json_Decode\<close> is \<^verbatim>\<open>json.NewDecoder(body).Decode\<close> at \<^verbatim>\<open>ISPMetrics\<close>;
  \<open>time_MarshalJSON\<close> is the text \<^verbatim>\<open>time.Time.MarshalJSON\<close> gives for a time, or its error
  (a year outside 0 to 9999); \<open>json_render\<close> is the bytes \<^verbatim>\<open>encoding/json\<close> writes for a
  value (escaping included);
  \<open>mqtt_Connect\<close> is the token of \<^verbatim>\<open>client.Connect()\<close> for a broker, a client id and the
  optional user name and password; \<open>mqtt_Publish\<close> is the token the broker client
  returns for a message, given the messages handed to it before.
\<close>

record env =
  now :: "nat \<Rightarrow> time"
  http_NewRequest :: "string \<Rightarrow> string \<Rightarrow> string option"
  http_Do :: "request list \<Rightarrow> request \<Rightarrow> string + response"
  json_Decode :: "string \<Rightarrow> string + ISPMetrics"
  time_MarshalJSON :: "time \<Rightarrow> string + string"
  json_render :: "json \<Rightarrow> string"
  mqtt_Connect :: "string \<Rightarrow> string \<Rightarrow> string option \<Rightarrow> string option \<Rightarrow> token"
  mqtt_Publish :: "mqtt_message list \<Rightarrow> mqtt_message \<Rightarrow> token"

text \<open>
  The world: how often the clock was read, and the calls made so far to the HTTP
  client, to \<^verbatim>\<open>client.Publish\<close>, to \<^verbatim>\<open>client.Disconnect\<close> (its argument) and to the
  logger (every call, whatever the configured level).
\<close>

record world =
  clock_reads :: nat
  http_calls :: "request list"
  broker_calls :: "mqtt_message list"
  broker_disconnects :: "nat list"
  log_calls :: "log_entry list"

definition time_Now :: "env \<Rightarrow> world \<Rightarrow> time \<times> world" where
  "time_Now e w = (now e (clock_reads w), w\<lparr>clock_reads := Suc (clock_reads w)\<rparr>)"

definition logger :: "level \<Rightarrow> (string \<times> log_value) list \<Rightarrow> string \<Rightarrow> world \<Rightarrow> world" where
  "logger l fs m w = w\<lparr>log_calls := log_calls w @ [\<lparr>log_level = l, log_msg = m, log_fields = fs\<rparr>]\<rparr>"

text \<open>Go's slice indexing \<^verbatim>\<open>xs[i]\<close>: a run-time panic when the index is out of range.\<close>

definition index :: "'a list \<Rightarrow> nat \<Rightarrow> panic + 'a" where
  "index xs i = (if i < length xs then Inr (xs ! i) else Inl IndexOutOfRange)"

subsection \<open>extractLatestLatencyMetrics\<close>

text \<open>
  The \<^verbatim>\<open>for _, data := range metrics.Data\<close> loop, with the slice \<^verbatim>\<open>latencyMetrics\<close> that
  it appends to as accumulator.
\<close>

fun extract_loop ::
  "env \<Rightarrow> MetricData list \<Rightarrow> LatencyMetric list \<Rightarrow> world
     \<Rightarrow> panic \<times> world + LatencyMetric list \<times> world"
where
  "extract_loop e [] latencyMetrics w = Inr (latencyMetrics, w)"
| "extract_loop e (data # rest) latencyMetrics w =
    (if length (Periods data) = 0 then extract_loop e rest latencyMetrics w
     else
       (case index (Periods data) 0 of
          Inl p \<Rightarrow> Inl (p, w)
        | Inr latestPeriod \<Rightarrow>
            (case time_Now e w of
               (t, w') \<Rightarrow>
                 extract_loop e rest
                   (latencyMetrics @
                      [\<lparr>lm_SiteId = SiteId data,
                        lm_HostId = HostId data,
                        Timestamp = MetricTime latestPeriod,
                        lm_AvgLatency = AvgLatency (WAN (PData latestPeriod)),
                        lm_MaxLatency = MaxLatency (WAN (PData latestPeriod)),
                        lm_ISPName = ISPName (WAN (PData latestPeriod)),
                        lm_ISPAsn = ISPAsn (WAN (PData latestPeriod)),
                        PublishedAt = t\<rparr>])
                   w')))"

definition extractLatestLatencyMetrics ::
  "env \<Rightarrow> ISPMetrics \<Rightarrow> world \<Rightarrow> panic \<times> world + LatencyMetric list \<times> world"
where
  "extractLatestLatencyMetrics e metrics w = extract_loop e (Data metrics) [] w"

subsection \<open>GetISPMetrics\<close>

text \<open>
  The request is built with the caller's context (\<^verbatim>\<open>http.NewRequestWithContext(ctx, ...)\<close>),
  so the transport sees in \<open>req_ctx\<close> whether shutdown has been requested while the
  request is in flight. The body of a non-200 response is read for the error message;
  the body of a 200 response is decoded.
\<close>

definition GetISPMetrics ::
  "env \<Rightarrow> UbiquitiClient \<Rightarrow> go_context \<Rightarrow> string \<Rightarrow> world \<Rightarrow> (error + ISPMetrics) \<times> world"
where
  "GetISPMetrics e c ctx metricType w =
    (let url = baseURL c @ ''/'' @ metricType in
     case http_NewRequest e ''GET'' url of
       Some err \<Rightarrow> (Inl (CreateRequestFailed err), w)
     | None \<Rightarrow>
         (let req = \<lparr>Method = ''GET'', URL = url,
                     Header = [(''X-API-KEY'', apiKey c), (''Accept'', ''application/json'')],
                     req_ctx = ctx\<rparr>;
              w1 = logger DebugLevel [(''url'', LStr url)] ''Making API request'' w;
              w2 = w1\<lparr>http_calls := http_calls w1 @ [req]\<rparr>
          in case http_Do e (http_calls w1) req of
               Inl err \<Rightarrow> (Inl (MakeRequestFailed err), w2)
             | Inr resp \<Rightarrow>
                 if StatusCode resp \<noteq> 200
                 then (Inl (ApiRequestFailed (StatusCode resp) (Body resp)), w2)
                 else (case json_Decode e (Body resp) of
                         Inl err \<Rightarrow> (Inl (DecodeResponseFailed err), w2)
                       | Inr metrics \<Rightarrow> (Inr metrics, w2))))"

subsection \<open>NewMQTTPublisher, NewApp, PublishLatency, Disconnect\<close>

definition NewMQTTPublisher :: "env \<Rightarrow> CLI \<Rightarrow> error + MQTTPublisher" where
  "NewMQTTPublisher e c =
    (let tok = mqtt_Connect e (MqttBroker c) (MqttClientID c)
                 (if MqttUsername c \<noteq> [] then Some (MqttUsername c) else None)
                 (if MqttPassword c \<noteq> [] then Some (MqttPassword c) else None)
     in if Wait tok
        then (case Error tok of
                Some err \<Rightarrow> Inl (ConnectBrokerFailed err)
              | None \<Rightarrow> Inr \<lparr>pub_topic = MqttTopic c\<rparr>)
        else Inr \<lparr>pub_topic = MqttTopic c\<rparr>)"

definition NewApp :: "env \<Rightarrow> CLI \<Rightarrow> error + App" where
  "NewApp e c =
    (case NewMQTTPublisher e c of
       Inl err \<Rightarrow> Inl (CreatePublisherFailed err)
     | Inr p \<Rightarrow>
         Inr \<lparr>cli = c,
              ubiquitiClient = \<lparr>apiKey = ApiKey c, baseURL = ApiURL c\<rparr>,
              mqttPublisher = Some p\<rparr>)"

text \<open>
  \<^verbatim>\<open>json.Marshal\<close> at \<^verbatim>\<open>LatencyMetric\<close>: an object with one member per field, in the
  order of the struct, under the name of the field's \<^verbatim>\<open>json\<close> tag; \<^verbatim>\<open>PublishedAt\<close> goes
  through \<^verbatim>\<open>time.Time.MarshalJSON\<close>, the one step that can fail.
\<close>

definition json_Marshal :: "env \<Rightarrow> LatencyMetric \<Rightarrow> string + string" where
  "json_Marshal e v =
    (case time_MarshalJSON e (PublishedAt v) of
       Inl err \<Rightarrow> Inl err
     | Inr ts \<Rightarrow>
         Inr (json_render e
                (JObject
                   [(''siteId'', JString (lm_SiteId v)),
                    (''hostId'', JString (lm_HostId v)),
                    (''timestamp'', JString (Timestamp v)),
                    (''avgLatency'', JNumber (sint (lm_AvgLatency v))),
                    (''maxLatency'', JNumber (sint (lm_MaxLatency v))),
                    (''ispName'', JString (lm_ISPName v)),
                    (''ispAsn'', JString (lm_ISPAsn v)),
                    (''publishedAt'', JString ts)])))"

text \<open>
  \<^verbatim>\<open>PublishLatency\<close> has a pointer receiver: it marshals and formats the topic first and
  dereferences the receiver at \<^verbatim>\<open>p.logger\<close>, where a nil receiver panics. The result is
  Go's \<^verbatim>\<open>error\<close>: \<open>None\<close> is nil. \<^verbatim>\<open>token.Wait() && token.Error() != nil\<close> evaluates
  \<^verbatim>\<open>Wait\<close> first.
\<close>

definition PublishLatency ::
  "env \<Rightarrow> MQTTPublisher option \<Rightarrow> LatencyMetric \<Rightarrow> string \<Rightarrow> world
     \<Rightarrow> panic \<times> world + error option \<times> world"
where
  "PublishLatency e p latencyMetric baseTopic w =
    (case json_Marshal e latencyMetric of
       Inl err \<Rightarrow> Inr (Some (MarshalLatencyFailed err), w)
     | Inr pl \<Rightarrow>
         (let tp = baseTopic @ ''/'' @ lm_SiteId latencyMetric @ ''/latency'' in
          case p of
            None \<Rightarrow> Inl (NilPointerDereference, w)
          | Some _ \<Rightarrow>
              (let w1 = logger DebugLevel
                          [(''topic'', LStr tp),
                           (''siteId'', LStr (lm_SiteId latencyMetric)),
                           (''avgLatency'', LInt (lm_AvgLatency latencyMetric)),
                           (''maxLatency'', LInt (lm_MaxLatency latencyMetric)),
                           (''payload_size'', LLen (length pl))]
                          ''Publishing latency metric to MQTT'' w;
                   m = \<lparr>topic = tp, qos = 0, retained = False, payload = pl\<rparr>;
                   tok = mqtt_Publish e (broker_calls w1) m;
                   w2 = w1\<lparr>broker_calls := broker_calls w1 @ [m]\<rparr>
               in if Wait tok
                  then (case Error tok of
                          Some err \<Rightarrow> Inr (Some (PublishLatencyFailed err), w2)
                        | None \<Rightarrow> Inr (None, w2))
                  else Inr (None, w2))))"

definition Disconnect :: "MQTTPublisher \<Rightarrow> world \<Rightarrow> world" where
  "Disconnect p w =
    (let w1 = logger InfoLevel [] ''Disconnecting from MQTT broker'' w
     in w1\<lparr>broker_disconnects := broker_disconnects w1 @ [250]\<rparr>)"

subsection \<open>fetchAndPublishMetrics\<close>

text \<open>
  The \<^verbatim>\<open>for _, latencyMetric := range latencyMetrics\<close> loop: an error of
  \<^verbatim>\<open>PublishLatency\<close> is logged with the site id, and the loop goes on.
\<close>

fun publish_loop ::
  "env \<Rightarrow> App \<Rightarrow> LatencyMetric list \<Rightarrow> world \<Rightarrow> panic \<times> world + world"
where
  "publish_loop e a [] w = Inr w"
| "publish_loop e a (latencyMetric # rest) w =
    (case PublishLatency e (mqttPublisher a) latencyMetric (MqttTopic (cli a)) w of
       Inl p \<Rightarrow> Inl p
     | Inr (Some err, w') \<Rightarrow>
         publish_loop e a rest
           (logger ErrorLevel
              [(''error'', LErr err), (''siteId'', LStr (lm_SiteId latencyMetric))]
              ''Failed to publish latency metric'' w')
     | Inr (None, w') \<Rightarrow> publish_loop e a rest w')"

definition fetchAndPublishMetrics ::
  "env \<Rightarrow> App \<Rightarrow> go_context \<Rightarrow> world \<Rightarrow> panic \<times> world + error option \<times> world"
where
  "fetchAndPublishMetrics e a ctx w =
    (let w0 = logger DebugLevel [] ''Fetching ISP metrics from Ubiquiti API'' w in
     case GetISPMetrics e (ubiquitiClient a) ctx (cli_MetricType (cli a)) w0 of
       (Inl err, w1) \<Rightarrow> Inr (Some (FetchISPMetricsFailed err), w1)
     | (Inr metrics, w1) \<Rightarrow>
         (let w2 = logger DebugLevel [(''periods_count'', LLen (length (Data metrics)))]
                     ''Metrics fetched successfully'' w1
          in case extractLatestLatencyMetrics e metrics w2 of
               Inl p \<Rightarrow> Inl p
             | Inr (latencyMetrics, w3) \<Rightarrow>
                 (let w4 = logger DebugLevel
                             [(''sites_count'', LLen (length latencyMetrics))]
                             ''Extracted latest latency metrics'' w3
                  in case publish_loop e a latencyMetrics w4 of
                       Inl p \<Rightarrow> Inl p
                     | Inr w5 \<Rightarrow>
                         Inr (None,
                              logger InfoLevel
                                [(''sites_published'', LLen (length latencyMetrics))]
                                ''Latency metrics published successfully'' w5))))"

subsection \<open>Run\<close>

text \<open>
  The \<^verbatim>\<open>select\<close> of the main loop wakes up on one of two events. \<open>CtxDone\<close>: the
  context's \<^verbatim>\<open>Done\<close> channel is chosen. \<open>Tick c\<close>: the ticker's channel is chosen, and
  \<open>c\<close> is what the context shows to the HTTP request of the cycle that follows (whether
  shutdown was requested before or while the request was in flight). \<open>run_loop\<close>
  takes the wake-ups the loop will get, in order; when they are used up the loop is
  still blocked in \<^verbatim>\<open>select\<close>, which is the result \<open>Waiting\<close>.
\<close>

datatype event = CtxDone | Tick go_context

datatype run_result = Returned "error option" | Waiting | Panicked panic

fun run_loop :: "env \<Rightarrow> App \<Rightarrow> event list \<Rightarrow> world \<Rightarrow> run_result \<times> world" where
  "run_loop e a [] w = (Waiting, w)"
| "run_loop e a (CtxDone # evs) w =
    (let w1 = logger InfoLevel [] ''Shutting down application'' w
     in (Returned None,
         (case mqttPublisher a of
            Some p \<Rightarrow> Disconnect p w1
          | None \<Rightarrow> w1)))"
| "run_loop e a (Tick ctx # evs) w =
    (case fetchAndPublishMetrics e a ctx w of
       Inl (p, w') \<Rightarrow> (Panicked p, w')
     | Inr (Some err, w') \<Rightarrow>
         run_loop e a evs
           (logger ErrorLevel [(''error'', LErr err)]
              ''Failed to fetch and publish metrics'' w')
     | Inr (None, w') \<Rightarrow> run_loop e a evs w')"

text \<open>
  \<^verbatim>\<open>Run\<close>: \<^verbatim>\<open>time.NewTicker\<close> panics on a non-positive interval; \<open>ctx0\<close> is what the
  context shows to the request of the initial fetch.
\<close>

definition Run :: "env \<Rightarrow> App \<Rightarrow> go_context \<Rightarrow> event list \<Rightarrow> world \<Rightarrow> run_result \<times> world" where
  "Run e a ctx0 evs w =
    (let w1 = logger InfoLevel [] ''Starting ubipoller application'' w;
         w2 = logger InfoLevel
                [(''interval'', LDur (sint (Interval (cli a)))),
                 (''metric_type'', LStr (cli_MetricType (cli a))),
                 (''mqtt_topic'', LStr (MqttTopic (cli a)))]
                ''Configuration loaded'' w1
     in if sint (Interval (cli a)) \<le> 0 then (Panicked NonPositiveTickerInterval, w2)
        else (case fetchAndPublishMetrics e a ctx0 w2 of
                Inl (p, w3) \<Rightarrow> (Panicked p, w3)
              | Inr (Some err, w3) \<Rightarrow>
                  run_loop e a evs
                    (logger ErrorLevel [(''error'', LErr err)]
                       ''Initial metrics fetch failed'' w3)
              | Inr (None, w3) \<Rightarrow> run_loop e a evs w3))"

subsection \<open>Auxiliary definitions for the statements\<close>

text \<open>
  The struct literal of the loop body of \<^verbatim>\<open>extractLatestLatencyMetrics\<close>, for a series
  \<open>d\<close> and a clock reading \<open>t\<close>; \<open>extracted e m w\<close> lists these records for the
  series of \<open>m\<close> that have a period, the clock being read once per record from the
  state of \<open>w\<close> on.
\<close>

definition latest_record :: "MetricData \<Rightarrow> time \<Rightarrow> LatencyMetric" where
  "latest_record d t =
     \<lparr>lm_SiteId = SiteId d, lm_HostId = HostId d,
      Timestamp = MetricTime (Periods d ! 0),
      lm_AvgLatency = AvgLatency (WAN (PData (Periods d ! 0))),
      lm_MaxLatency = MaxLatency (WAN (PData (Periods d ! 0))),
      lm_ISPName = ISPName (WAN (PData (Periods d ! 0))),
      lm_ISPAsn = ISPAsn (WAN (PData (Periods d ! 0))),
      PublishedAt = t\<rparr>"

definition extracted :: "env \<Rightarrow> ISPMetrics \<Rightarrow> world \<Rightarrow> LatencyMetric list" where
  "extracted e m w =
     map (\<lambda>(k, d). latest_record d (now e k))
       (enumerate (clock_reads w) (filter (\<lambda>d. Periods d \<noteq> []) (Data m)))"

text \<open>
  The arguments of \<^verbatim>\<open>p.client.Publish(topic, 0, false, payload)\<close> in \<^verbatim>\<open>PublishLatency\<close>, and
  the messages one call of \<^verbatim>\<open>PublishLatency\<close> hands to the broker client: none when
  \<^verbatim>\<open>json.Marshal\<close> fails.
\<close>

definition latency_message :: "string \<Rightarrow> LatencyMetric \<Rightarrow> string \<Rightarrow> mqtt_message" where
  "latency_message baseTopic r pl =
     \<lparr>topic = baseTopic @ ''/'' @ lm_SiteId r @ ''/latency'', qos = 0, retained = False, payload = pl\<rparr>"

definition sent_for :: "env \<Rightarrow> string \<Rightarrow> LatencyMetric \<Rightarrow> mqtt_message list" where
  "sent_for e baseTopic r =
     (case json_Marshal e r of Inl err \<Rightarrow> [] | Inr pl \<Rightarrow> [latency_message baseTopic r pl])"

text \<open>
  Two views of a series, to state what the extraction does not depend on:
  \<open>first_period_only\<close> forgets every period but the first, \<open>mask_series\<close> resets the
  throughput, downtime, uptime and packet-loss values of every period.
\<close>

definition first_period_only :: "MetricData \<Rightarrow> MetricData" where
  "first_period_only d = d\<lparr>Periods := take 1 (Periods d)\<rparr>"

definition mask_wan :: "WANData \<Rightarrow> WANData" where
  "mask_wan x = x\<lparr>DownloadKbps := 0, UploadKbps := 0, Downtime := 0, Uptime := 0, PacketLoss := 0\<rparr>"

definition mask_period :: "Period \<Rightarrow> Period" where
  "mask_period p = p\<lparr>PData := (PData p)\<lparr>WAN := mask_wan (WAN (PData p))\<rparr>\<rparr>"

definition mask_series :: "MetricData \<Rightarrow> MetricData" where
  "mask_series d = d\<lparr>Periods := map mask_period (Periods d)\<rparr>"

text \<open>
  What is asked of a message handed to the broker client for a base topic:
  quality of service 0, not retained, the payload what \<^verbatim>\<open>json.Marshal\<close> gives for some
  record, the topic that record's. \<open>appended P w w'\<close>: the broker calls of \<open>w'\<close> are
  those of \<open>w\<close> followed by messages that satisfy \<open>P\<close>.
\<close>

definition latency_publish :: "env \<Rightarrow> string \<Rightarrow> mqtt_message \<Rightarrow> bool" where
  "latency_publish e baseTopic m \<longleftrightarrow>
     qos m = 0 \<and> retained m = False \<and>
     (\<exists>r. json_Marshal e r = Inr (payload m) \<and>
          topic m = baseTopic @ ''/'' @ lm_SiteId r @ ''/latency'')"

definition appended :: "(mqtt_message \<Rightarrow> bool) \<Rightarrow> world \<Rightarrow> world \<Rightarrow> bool" where
  "appended P w w' \<longleftrightarrow>
     length (broker_calls w) \<le> length (broker_calls w') \<and>
     take (length (broker_calls w)) (broker_calls w') = broker_calls w \<and>
     list_all P (drop (length (broker_calls w)) (broker_calls w'))"

subsection \<open>Sample inputs\<close>

text \<open>
  An envelope of two series that carry the same site id, an environment whose HTTP
  transport honours the request's context as \<^verbatim>\<open>net/http\<close> does (a request whose context
  is cancelled fails with \<^verbatim>\<open>context canceled\<close>) and whose broker rejects every publish,
  and an application as \<^verbatim>\<open>NewApp\<close> builds it. To keep payloads short, the sample
  rendering of a record's object is its site id, a colon and its host id.
\<close>

definition period_new :: Period where
  "period_new =
     \<lparr>PData = \<lparr>WAN = \<lparr>AvgLatency = 12, DownloadKbps = 900, Downtime = 0, ISPAsn = ''AS1'',
                      ISPName = ''ispA'', MaxLatency = 40, PacketLoss = 1, UploadKbps = 100,
                      Uptime = 100\<rparr>\<rparr>,
      MetricTime = ''2025-01-01T00:05:00Z'', Version = ''1''\<rparr>"

definition period_new_other_load :: Period where
  "period_new_other_load =
     \<lparr>PData = \<lparr>WAN = \<lparr>AvgLatency = 12, DownloadKbps = 5, Downtime = 3, ISPAsn = ''AS1'',
                      ISPName = ''ispA'', MaxLatency = 40, PacketLoss = 8, UploadKbps = 6,
                      Uptime = 97\<rparr>\<rparr>,
      MetricTime = ''2025-01-01T00:05:00Z'', Version = ''1''\<rparr>"

definition period_old :: Period where
  "period_old =
     \<lparr>PData = \<lparr>WAN = \<lparr>AvgLatency = 99, DownloadKbps = 800, Downtime = 0, ISPAsn = ''AS9'',
                      ISPName = ''ispZ'', MaxLatency = 250, PacketLoss = 0, UploadKbps = 90,
                      Uptime = 100\<rparr>\<rparr>,
      MetricTime = ''2025-01-01T00:00:00Z'', Version = ''1''\<rparr>"

definition period_b :: Period where
  "period_b =
     \<lparr>PData = \<lparr>WAN = \<lparr>AvgLatency = 7, DownloadKbps = 300, Downtime = 0, ISPAsn = ''AS2'',
                      ISPName = ''ispB'', MaxLatency = 9, PacketLoss = 0, UploadKbps = 30,
                      Uptime = 100\<rparr>\<rparr>,
      MetricTime = ''2025-01-01T00:05:00Z'', Version = ''1''\<rparr>"

definition series_a :: MetricData where
  "series_a = \<lparr>MetricType = ''5m'', Periods = [period_new, period_old],
               SiteId = ''s1'', HostId = ''h1''\<rparr>"

definition series_dup :: MetricData where
  "series_dup = \<lparr>MetricType = ''5m'', Periods = [period_b], SiteId = ''s1'', HostId = ''h2''\<rparr>"

definition series_empty :: MetricData where
  "series_empty = \<lparr>MetricType = ''5m'', Periods = [], SiteId = ''s3'', HostId = ''h3''\<rparr>"

definition envelope_two :: ISPMetrics where
  "envelope_two = \<lparr>Data = [series_a, series_dup]\<rparr>"

definition render_sample :: "json \<Rightarrow> string" where
  "render_sample j =
     (case j of
        JObject ((k1, JString site) # (k2, JString host) # members) \<Rightarrow> site @ '':'' @ host
      | _ \<Rightarrow> [])"

definition env_sample :: env where
  "env_sample =
     \<lparr>now = (\<lambda>k. 1000 + int k),
      http_NewRequest = (\<lambda>m u. None),
      http_Do = (\<lambda>h r. case req_ctx r of
                          Cancelled \<Rightarrow> Inl ''context canceled''
                        | Live \<Rightarrow> Inr \<lparr>StatusCode = 200, Body = ''{}''\<rparr>),
      json_Decode = (\<lambda>b. Inr envelope_two),
      time_MarshalJSON = (\<lambda>t. Inr ''T''),
      json_render = render_sample,
      mqtt_Connect = (\<lambda>b c u p. \<lparr>Wait = True, Error = None\<rparr>),
      mqtt_Publish = (\<lambda>h m. \<lparr>Wait = True, Error = Some ''not connected''\<rparr>)\<rparr>"

definition cli_sample :: CLI where
  "cli_sample =
     \<lparr>ApiKey = ''k'', ApiURL = ''https://api.ui.com/ea/isp-metrics'', cli_MetricType = ''5m'',
      MqttBroker = ''tcp://localhost:1883'', MqttClientID = ''ubipoller'', MqttTopic = ''t'',
      MqttUsername = [], MqttPassword = [], Interval = 300000000000, LogLevel = ''info''\<rparr>"

definition app_sample :: App where
  "app_sample =
     \<lparr>cli = cli_sample,
      ubiquitiClient = \<lparr>apiKey = ''k'', baseURL = ''https://api.ui.com/ea/isp-metrics''\<rparr>,
      mqttPublisher = Some \<lparr>pub_topic = ''t''\<rparr>\<rparr>"

definition world_empty :: world where
  "world_empty =
     \<lparr>clock_reads = 0, http_calls = [], broker_calls = [], broker_disconnects = [],
      log_calls = []\<rparr>"

text \<open>
  The same environment with a transport that answers whatever the context shows (the
  response was complete before the shutdown request) and a broker that accepts.
\<close>

definition env_deaf :: env where
  "env_deaf =
     env_sample\<lparr>http_Do := (\<lambda>h r. Inr \<lparr>StatusCode = 200, Body = ''{}''\<rparr>),
                mqtt_Publish := (\<lambda>h m. \<lparr>Wait = True, Error = None\<rparr>)\<rparr>"

text \<open>The same environment with an API that answers 500 to every request.\<close>

definition env_down :: env where
  "env_down = env_sample\<lparr>http_Do := (\<lambda>h r. Inr \<lparr>StatusCode = 500, Body = ''down''\<rparr>)\<rparr>"

lemmas sample_defs =
  period_new_def period_new_other_load_def period_old_def period_b_def series_a_def
  series_dup_def series_empty_def envelope_two_def render_sample_def env_sample_def
  json_Marshal_def cli_sample_def
  app_sample_def world_empty_def

section \<open>Properties\<close>

subsection \<open>What the loops compute\<close>

lemma extract_loop_eq:
  "extract_loop e ds acc w =
     Inr (acc @ map (\<lambda>(k, d). latest_record d (now e k))
                  (enumerate (clock_reads w) (filter (\<lambda>d. Periods d \<noteq> []) ds)),
          w\<lparr>clock_reads := clock_reads w + length (filter (\<lambda>d. Periods d \<noteq> []) ds)\<rparr>)"
proof (induction ds arbitrary: acc w)
  case Nil
  show ?case by simp
next
  case (Cons d ds)
  show ?case
  proof (cases "Periods d = []")
    case True
    then show ?thesis using Cons.IH [of acc w] by simp
  next
    case False
    then show ?thesis
      by (simp add: Cons.IH index_def time_Now_def latest_record_def)
  qed
qed

lemma map_enumerate_upt:
  "map f (enumerate c xs) = map (\<lambda>i. f (c + i, xs ! i)) [0..<length xs]"
  by (rule nth_equalityI) (simp_all add: nth_enumerate_eq)

lemma first_period_only_sel:
  "Periods (first_period_only d) = take 1 (Periods d)"
  "SiteId (first_period_only d) = SiteId d"
  "HostId (first_period_only d) = HostId d"
  by (simp_all add: first_period_only_def)

lemma mask_series_sel:
  "Periods (mask_series d) = map mask_period (Periods d)"
  "SiteId (mask_series d) = SiteId d"
  "HostId (mask_series d) = HostId d"
  by (simp_all add: mask_series_def)

lemma mask_period_sel:
  "MetricTime (mask_period p) = MetricTime p"
  "AvgLatency (WAN (PData (mask_period p))) = AvgLatency (WAN (PData p))"
  "MaxLatency (WAN (PData (mask_period p))) = MaxLatency (WAN (PData p))"
  "ISPName (WAN (PData (mask_period p))) = ISPName (WAN (PData p))"
  "ISPAsn (WAN (PData (mask_period p))) = ISPAsn (WAN (PData p))"
  by (simp_all add: mask_period_def mask_wan_def)

lemma extract_loop_first_period_only:
  "extract_loop e (map first_period_only ds) acc w = extract_loop e ds acc w"
proof (induction ds arbitrary: acc w)
  case Nil
  show ?case by simp
next
  case (Cons d ds)
  show ?case
  proof (cases "Periods d")
    case Nil
    then show ?thesis by (simp add: Cons.IH first_period_only_sel)
  next
    case (Cons p ps)
    then show ?thesis by (simp add: Cons.IH first_period_only_sel index_def time_Now_def)
  qed
qed

lemma extract_loop_mask_series:
  "extract_loop e (map mask_series ds) acc w = extract_loop e ds acc w"
proof (induction ds arbitrary: acc w)
  case Nil
  show ?case by simp
next
  case (Cons d ds)
  show ?case
  proof (cases "Periods d")
    case Nil
    then show ?thesis by (simp add: Cons.IH mask_series_sel)
  next
    case (Cons p ps)
    then show ?thesis
      by (simp add: Cons.IH mask_series_sel mask_period_sel index_def time_Now_def)
  qed
qed

lemma logger_sel:
  "clock_reads (logger l fs m w) = clock_reads w"
  "http_calls (logger l fs m w) = http_calls w"
  "broker_calls (logger l fs m w) = broker_calls w"
  "broker_disconnects (logger l fs m w) = broker_disconnects w"
  "log_calls (logger l fs m w) = log_calls w @ [\<lparr>log_level = l, log_msg = m, log_fields = fs\<rparr>]"
  by (simp_all add: logger_def)

lemma PublishLatency_Some:
  "\<exists>res w'. PublishLatency e (Some p) r base w = Inr (res, w')
      \<and> broker_calls w' = broker_calls w @ sent_for e base r
      \<and> clock_reads w' = clock_reads w
      \<and> http_calls w' = http_calls w
      \<and> broker_disconnects w' = broker_disconnects w"
  by (cases "json_Marshal e r")
     (simp_all add: PublishLatency_def sent_for_def latency_message_def Let_def logger_sel
        split: option.splits)

lemma publish_loop_Some:
  assumes "mqttPublisher a = Some p"
  shows "\<exists>w'. publish_loop e a rs w = Inr w'
      \<and> broker_calls w' = broker_calls w @ concat (map (sent_for e (MqttTopic (cli a))) rs)
      \<and> clock_reads w' = clock_reads w
      \<and> http_calls w' = http_calls w
      \<and> broker_disconnects w' = broker_disconnects w"
proof (induction rs arbitrary: w)
  case Nil
  show ?case by simp
next
  case (Cons r rs)
  obtain res w1 where
    pub: "PublishLatency e (Some p) r (MqttTopic (cli a)) w = Inr (res, w1)" and
    w1: "broker_calls w1 = broker_calls w @ sent_for e (MqttTopic (cli a)) r"
        "clock_reads w1 = clock_reads w" "http_calls w1 = http_calls w"
        "broker_disconnects w1 = broker_disconnects w"
    using PublishLatency_Some [of e p r "MqttTopic (cli a)" w] by blast
  show ?case
  proof (cases res)
    case None
    with pub w1 assms Cons.IH [of w1] show ?thesis by auto
  next
    case (Some err)
    with pub w1 assms
      Cons.IH [of "logger ErrorLevel [(''error'', LErr err), (''siteId'', LStr (lm_SiteId r))]
                     ''Failed to publish latency metric'' w1"]
    show ?thesis by (auto simp: logger_sel)
  qed
qed

lemma GetISPMetrics_world:
  "broker_calls (snd (GetISPMetrics e c ctx mt w)) = broker_calls w"
  "clock_reads (snd (GetISPMetrics e c ctx mt w)) = clock_reads w"
  "broker_disconnects (snd (GetISPMetrics e c ctx mt w)) = broker_disconnects w"
  by (simp_all add: GetISPMetrics_def Let_def logger_sel split: option.splits sum.splits)

lemma GetISPMetrics_logger:
  "fst (GetISPMetrics e c ctx mt (logger l fs msg w)) = fst (GetISPMetrics e c ctx mt w)"
  by (simp add: GetISPMetrics_def Let_def logger_sel split: option.splits sum.splits)

lemma extract_eq:
  "extractLatestLatencyMetrics e m w =
     Inr (extracted e m w,
          w\<lparr>clock_reads := clock_reads w + length (filter (\<lambda>d. Periods d \<noteq> []) (Data m))\<rparr>)"
  by (simp add: extractLatestLatencyMetrics_def extract_loop_eq extracted_def)

lemma extracted_logger: "extracted e m (logger l fs msg w) = extracted e m w"
  by (simp add: extracted_def logger_sel)

lemma cycle_fetch_failed:
  assumes "fst (GetISPMetrics e (ubiquitiClient a) ctx (cli_MetricType (cli a)) w) = Inl err"
  shows "\<exists>w'. fetchAndPublishMetrics e a ctx w = Inr (Some (FetchISPMetricsFailed err), w')
           \<and> broker_calls w' = broker_calls w \<and> clock_reads w' = clock_reads w"
proof -
  let ?w0 = "logger DebugLevel [] ''Fetching ISP metrics from Ubiquiti API'' w"
  let ?g = "GetISPMetrics e (ubiquitiClient a) ctx (cli_MetricType (cli a)) ?w0"
  from assms have f: "fst ?g = Inl err" by (simp add: GetISPMetrics_logger)
  have s: "broker_calls (snd ?g) = broker_calls w" "clock_reads (snd ?g) = clock_reads w"
    by (simp_all add: GetISPMetrics_world logger_sel)
  have "fetchAndPublishMetrics e a ctx w = Inr (Some (FetchISPMetricsFailed err), snd ?g)"
    using f by (cases ?g) (simp add: fetchAndPublishMetrics_def)
  with s show ?thesis by blast
qed

lemma cycle_fetch_ok:
  assumes "fst (GetISPMetrics e (ubiquitiClient a) ctx (cli_MetricType (cli a)) w) = Inr m"
      and "mqttPublisher a = Some p"
  shows "\<exists>w'. fetchAndPublishMetrics e a ctx w = Inr (None, w')
           \<and> broker_calls w' =
               broker_calls w @ concat (map (sent_for e (MqttTopic (cli a))) (extracted e m w))
           \<and> last (log_calls w') =
               \<lparr>log_level = InfoLevel, log_msg = ''Latency metrics published successfully'',
                log_fields = [(''sites_published'', LLen (length (extracted e m w)))]\<rparr>"
proof -
  let ?w0 = "logger DebugLevel [] ''Fetching ISP metrics from Ubiquiti API'' w"
  let ?g = "GetISPMetrics e (ubiquitiClient a) ctx (cli_MetricType (cli a)) ?w0"
  from assms(1) have "fst ?g = Inr m" by (simp add: GetISPMetrics_logger)
  then obtain w1 where g: "?g = (Inr m, w1)" by (cases ?g) auto
  have w1: "broker_calls w1 = broker_calls w" "clock_reads w1 = clock_reads w"
    using GetISPMetrics_world(1,2) [of e "ubiquitiClient a" ctx "cli_MetricType (cli a)" ?w0]
    by (simp_all add: g logger_sel)
  let ?w2 = "logger DebugLevel [(''periods_count'', LLen (length (Data m)))]
               ''Metrics fetched successfully'' w1"
  let ?w3 = "?w2\<lparr>clock_reads := clock_reads ?w2 + length (filter (\<lambda>d. Periods d \<noteq> []) (Data m))\<rparr>"
  let ?w4 = "logger DebugLevel [(''sites_count'', LLen (length (extracted e m w)))]
               ''Extracted latest latency metrics'' ?w3"
  have ex: "extracted e m ?w2 = extracted e m w"
    using w1(2) by (simp add: extracted_def logger_sel)
  have b4: "broker_calls ?w4 = broker_calls w"
    using w1(1) by (simp add: logger_sel)
  obtain w5 where
    loop: "publish_loop e a (extracted e m w) ?w4 = Inr w5" and
    w5: "broker_calls w5 =
           broker_calls ?w4 @ concat (map (sent_for e (MqttTopic (cli a))) (extracted e m w))"
    using publish_loop_Some [OF assms(2), of e "extracted e m w" ?w4] by blast
  have "fetchAndPublishMetrics e a ctx w =
          Inr (None, logger InfoLevel [(''sites_published'', LLen (length (extracted e m w)))]
                       ''Latency metrics published successfully'' w5)"
    by (simp add: fetchAndPublishMetrics_def g extract_eq ex loop Let_def)
  with w5 b4 show ?thesis by (auto simp: logger_sel)
qed

subsection \<open>Failure of the fetch, and what a run hands to the broker\<close>

lemma GetISPMetrics_failure:
  assumes "case http_Do e (http_calls w)
                  \<lparr>Method = ''GET'', URL = baseURL c @ ''/'' @ mt,
                   Header = [(''X-API-KEY'', apiKey c), (''Accept'', ''application/json'')],
                   req_ctx = ctx\<rparr> of
             Inl netErr \<Rightarrow> True
           | Inr resp \<Rightarrow> StatusCode resp \<noteq> 200 \<or> isl (json_Decode e (Body resp))"
  shows "\<exists>err. fst (GetISPMetrics e c ctx mt w) = Inl err"
  using assms
  by (auto simp: GetISPMetrics_def Let_def logger_sel isl_def split: option.splits sum.splits)

lemma appended_iff:
  "appended P w w' \<longleftrightarrow> (\<exists>new. broker_calls w' = broker_calls w @ new \<and> list_all P new)"
proof
  assume "appended P w w'"
  then have "broker_calls w' =
               broker_calls w @ drop (length (broker_calls w)) (broker_calls w')"
        and "list_all P (drop (length (broker_calls w)) (broker_calls w'))"
    unfolding appended_def by (metis append_take_drop_id, simp)
  then show "\<exists>new. broker_calls w' = broker_calls w @ new \<and> list_all P new" by blast
next
  assume "\<exists>new. broker_calls w' = broker_calls w @ new \<and> list_all P new"
  then show "appended P w w'" by (auto simp: appended_def)
qed

lemma appended_same: "broker_calls w' = broker_calls w \<Longrightarrow> appended P w w'"
  by (simp add: appended_def)

lemma appended_trans: "appended P w w1 \<Longrightarrow> appended P w1 w2 \<Longrightarrow> appended P w w2"
  unfolding appended_iff by auto

lemma appended_logger: "appended P w w' \<Longrightarrow> appended P w (logger l fs m w')"
  unfolding appended_iff by (simp add: logger_sel)

lemma PublishLatency_appended:
  "appended (latency_publish e base) w (case_sum snd snd (PublishLatency e p r base w))"
  by (auto simp: PublishLatency_def Let_def logger_sel appended_iff latency_publish_def
        split: sum.splits option.splits)

lemma publish_loop_appended:
  "appended (latency_publish e (MqttTopic (cli a))) w (case_sum snd id (publish_loop e a rs w))"
proof (induction rs arbitrary: w)
  case Nil
  show ?case by (simp add: appended_same)
next
  case (Cons r rs)
  let ?P = "latency_publish e (MqttTopic (cli a))"
  let ?pub = "PublishLatency e (mqttPublisher a) r (MqttTopic (cli a)) w"
  have step: "appended ?P w (case_sum snd snd ?pub)"
    by (rule PublishLatency_appended)
  show ?case
  proof (cases ?pub)
    case (Inl xw)
    with step show ?thesis by simp
  next
    case (Inr rw)
    obtain res w1 where rw: "rw = (res, w1)" by (cases rw)
    from step Inr rw have w1: "appended ?P w w1" by simp
    show ?thesis
    proof (cases res)
      case None
      from appended_trans [OF w1 Cons.IH [of w1]] Inr rw None show ?thesis by simp
    next
      case (Some err)
      let ?w2 = "logger ErrorLevel [(''error'', LErr err), (''siteId'', LStr (lm_SiteId r))]
                   ''Failed to publish latency metric'' w1"
      from appended_trans [OF appended_logger [OF w1] Cons.IH [of ?w2]] Inr rw Some
      show ?thesis by simp
    qed
  qed
qed

lemma fetchAndPublishMetrics_appended:
  "appended (latency_publish e (MqttTopic (cli a))) w
     (case_sum snd snd (fetchAndPublishMetrics e a ctx w))"
proof -
  let ?P = "latency_publish e (MqttTopic (cli a))"
  let ?w0 = "logger DebugLevel [] ''Fetching ISP metrics from Ubiquiti API'' w"
  let ?g = "GetISPMetrics e (ubiquitiClient a) ctx (cli_MetricType (cli a)) ?w0"
  obtain res w1 where g: "?g = (res, w1)" by (cases ?g)
  have w1: "broker_calls w1 = broker_calls w"
    using GetISPMetrics_world(1) [of e "ubiquitiClient a" ctx "cli_MetricType (cli a)" ?w0]
    by (simp add: g logger_sel)
  show ?thesis
  proof (cases res)
    case (Inl err)
    with g w1 show ?thesis by (simp add: fetchAndPublishMetrics_def appended_same)
  next
    case (Inr m)
    let ?w2 = "logger DebugLevel [(''periods_count'', LLen (length (Data m)))]
                 ''Metrics fetched successfully'' w1"
    let ?w3 = "?w2\<lparr>clock_reads :=
                     clock_reads ?w2 + length (filter (\<lambda>d. Periods d \<noteq> []) (Data m))\<rparr>"
    let ?w4 = "logger DebugLevel [(''sites_count'', LLen (length (extracted e m ?w2)))]
                 ''Extracted latest latency metrics'' ?w3"
    let ?loop = "publish_loop e a (extracted e m ?w2) ?w4"
    have w4: "appended ?P w ?w4"
      using w1 by (simp add: appended_same logger_sel)
    have loop: "appended ?P w (case_sum snd id ?loop)"
      by (rule appended_trans [OF w4 publish_loop_appended])
    show ?thesis
    proof (cases ?loop)
      case (Inl xw)
      with loop g Inr show ?thesis
        by (simp add: fetchAndPublishMetrics_def extract_eq Let_def)
    next
      case (Inr w5)
      with loop have "appended ?P w w5" by simp
      from appended_logger [OF this] g \<open>res = Inr m\<close> Inr show ?thesis
        by (simp add: fetchAndPublishMetrics_def extract_eq Let_def)
    qed
  qed
qed

lemma run_loop_appended:
  "appended (latency_publish e (MqttTopic (cli a))) w (snd (run_loop e a evs w))"
proof (induction evs arbitrary: w)
  case Nil
  show ?case by (simp add: appended_same)
next
  case (Cons ev evs)
  let ?P = "latency_publish e (MqttTopic (cli a))"
  show ?case
  proof (cases ev)
    case CtxDone
    then show ?thesis
      by (simp add: appended_same Let_def Disconnect_def logger_sel split: option.splits)
  next
    case (Tick ctx)
    let ?c = "fetchAndPublishMetrics e a ctx w"
    have step: "appended ?P w (case_sum snd snd ?c)"
      by (rule fetchAndPublishMetrics_appended)
    show ?thesis
    proof (cases ?c)
      case (Inl xw)
      with step Tick show ?thesis by (cases xw) simp
    next
      case (Inr rw)
      obtain res w1 where rw: "rw = (res, w1)" by (cases rw)
      from step Inr rw have w1: "appended ?P w w1" by simp
      show ?thesis
      proof (cases res)
        case None
        from appended_trans [OF w1 Cons.IH [of w1]] Tick Inr rw None show ?thesis by simp
      next
        case (Some err)
        let ?w2 = "logger ErrorLevel [(''error'', LErr err)]
                     ''Failed to fetch and publish metrics'' w1"
        from appended_trans [OF appended_logger [OF w1] Cons.IH [of ?w2]] Tick Inr rw Some
        show ?thesis by simp
      qed
    qed
  qed
qed

lemma Run_appended:
  "appended (latency_publish e (MqttTopic (cli a))) w (snd (Run e a ctx0 evs w))"
proof -
  let ?P = "latency_publish e (MqttTopic (cli a))"
  let ?w1 = "logger InfoLevel [] ''Starting ubipoller application'' w"
  let ?w2 = "logger InfoLevel
               [(''interval'', LDur (sint (Interval (cli a)))),
                (''metric_type'', LStr (cli_MetricType (cli a))),
                (''mqtt_topic'', LStr (MqttTopic (cli a)))]
               ''Configuration loaded'' ?w1"
  let ?c = "fetchAndPublishMetrics e a ctx0 ?w2"
  have w2: "appended ?P w ?w2" by (simp add: appended_same logger_sel)
  have step: "appended ?P w (case_sum snd snd ?c)"
    by (rule appended_trans [OF w2 fetchAndPublishMetrics_appended])
  show ?thesis
  proof (cases "sint (Interval (cli a)) \<le> 0")
    case True
    with w2 show ?thesis by (simp add: Run_def Let_def)
  next
    case False
    show ?thesis
    proof (cases ?c)
      case (Inl xw)
      with step False show ?thesis by (cases xw) (simp add: Run_def Let_def)
    next
      case (Inr rw)
      obtain res w3 where rw: "rw = (res, w3)" by (cases rw)
      from step Inr rw have w3: "appended ?P w w3" by simp
      show ?thesis
      proof (cases res)
        case None
        from appended_trans [OF w3 run_loop_appended [of e a w3 evs]] False Inr rw None
        show ?thesis by (simp add: Run_def Let_def)
      next
        case (Some err)
        let ?w4 = "logger ErrorLevel [(''error'', LErr err)] ''Initial metrics fetch failed'' w3"
        from appended_trans [OF appended_logger [OF w3] run_loop_appended [of e a ?w4 evs]]
          False Inr rw Some
        show ?thesis by (simp add: Run_def Let_def)
      qed
    qed
  qed
qed

lemma cycle_no_panic:
  assumes "mqttPublisher a = Some p"
  shows "\<exists>res w'. fetchAndPublishMetrics e a ctx w = Inr (res, w')
           \<and> broker_disconnects w' = broker_disconnects w"
proof -
  let ?w0 = "logger DebugLevel [] ''Fetching ISP metrics from Ubiquiti API'' w"
  let ?g = "GetISPMetrics e (ubiquitiClient a) ctx (cli_MetricType (cli a)) ?w0"
  obtain res w1 where g: "?g = (res, w1)" by (cases ?g)
  have w1: "broker_disconnects w1 = broker_disconnects w"
    using GetISPMetrics_world(3) [of e "ubiquitiClient a" ctx "cli_MetricType (cli a)" ?w0]
    by (simp add: g logger_sel)
  show ?thesis
  proof (cases res)
    case (Inl err)
    with g w1 show ?thesis by (simp add: fetchAndPublishMetrics_def)
  next
    case (Inr m)
    let ?w2 = "logger DebugLevel [(''periods_count'', LLen (length (Data m)))]
                 ''Metrics fetched successfully'' w1"
    let ?w3 = "?w2\<lparr>clock_reads :=
                     clock_reads ?w2 + length (filter (\<lambda>d. Periods d \<noteq> []) (Data m))\<rparr>"
    let ?w4 = "logger DebugLevel [(''sites_count'', LLen (length (extracted e m ?w2)))]
                 ''Extracted latest latency metrics'' ?w3"
    obtain w5 where
      loop: "publish_loop e a (extracted e m ?w2) ?w4 = Inr w5" and
      w5: "broker_disconnects w5 = broker_disconnects ?w4"
      using publish_loop_Some [OF assms, of e "extracted e m ?w2" ?w4] by blast
    from w5 w1 have "broker_disconnects w5 = broker_disconnects w" by (simp add: logger_sel)
    with g Inr loop show ?thesis
      by (simp add: fetchAndPublishMetrics_def extract_eq Let_def logger_sel)
  qed
qed

lemma run_loop_ticks:
  assumes "mqttPublisher a = Some p" and "CtxDone \<notin> set evs"
  shows "fst (run_loop e a evs w) = Waiting
         \<and> broker_disconnects (snd (run_loop e a evs w)) = broker_disconnects w"
  using assms(2)
proof (induction evs arbitrary: w)
  case Nil
  show ?case by simp
next
  case (Cons ev evs)
  then obtain ctx where ev: "ev = Tick ctx" by (cases ev) auto
  from Cons have rest: "CtxDone \<notin> set evs" by simp
  obtain res w1 where
    c: "fetchAndPublishMetrics e a ctx w = Inr (res, w1)" and
    d: "broker_disconnects w1 = broker_disconnects w"
    using cycle_no_panic [OF assms(1), of e ctx w] by blast
  show ?case
  proof (cases res)
    case None
    with ev c d Cons.IH [OF rest, of w1] show ?thesis by simp
  next
    case (Some err)
    with ev c d
      Cons.IH [OF rest, of "logger ErrorLevel [(''error'', LErr err)]
                              ''Failed to fetch and publish metrics'' w1"]
    show ?thesis by (simp add: logger_sel)
  qed
qed

lemma run_loop_done:
  assumes "mqttPublisher a = Some p" and "CtxDone \<notin> set evs"
  shows "fst (run_loop e a (evs @ CtxDone # later) w) = Returned None
         \<and> broker_disconnects (snd (run_loop e a (evs @ CtxDone # later) w))
             = broker_disconnects w @ [250]"
  using assms(2)
proof (induction evs arbitrary: w)
  case Nil
  show ?case using assms(1) by (simp add: Let_def Disconnect_def logger_sel)
next
  case (Cons ev evs)
  then obtain ctx where ev: "ev = Tick ctx" by (cases ev) auto
  from Cons have rest: "CtxDone \<notin> set evs" by simp
  obtain res w1 where
    c: "fetchAndPublishMetrics e a ctx w = Inr (res, w1)" and
    d: "broker_disconnects w1 = broker_disconnects w"
    using cycle_no_panic [OF assms(1), of e ctx w] by blast
  show ?case
  proof (cases res)
    case None
    with ev c d Cons.IH [OF rest, of w1] show ?thesis by simp
  next
    case (Some err)
    with ev c d
      Cons.IH [OF rest, of "logger ErrorLevel [(''error'', LErr err)]
                              ''Failed to fetch and publish metrics'' w1"]
    show ?thesis by (simp add: logger_sel)
  qed
qed

lemma NewApp_publisher: "NewApp e c = Inr a \<Longrightarrow> mqttPublisher a = Some \<lparr>pub_topic = MqttTopic c\<rparr>"
  by (auto simp: NewApp_def NewMQTTPublisher_def Let_def split: sum.splits option.splits if_splits)

lemma NewApp_sample: "NewApp env_sample cli_sample = Inr app_sample"
  by (simp add: NewApp_def NewMQTTPublisher_def sample_defs)

lemma cycle_fetch_failed_log:
  assumes "fst (GetISPMetrics e (ubiquitiClient a) ctx (cli_MetricType (cli a)) w) = Inl err"
  shows "\<exists>w'. fetchAndPublishMetrics e a ctx w = Inr (Some (FetchISPMetricsFailed err), w')
           \<and> broker_calls w' = broker_calls w
           \<and> filter (\<lambda>l. log_msg l = ''Failed to fetch and publish metrics'') (log_calls w')
               = filter (\<lambda>l. log_msg l = ''Failed to fetch and publish metrics'') (log_calls w)"
proof -
  let ?w0 = "logger DebugLevel [] ''Fetching ISP metrics from Ubiquiti API'' w"
  let ?g = "GetISPMetrics e (ubiquitiClient a) ctx (cli_MetricType (cli a)) ?w0"
  from assms have "fst ?g = Inl err" by (simp add: GetISPMetrics_logger)
  then obtain w' where g: "?g = (Inl err, w')" by (cases ?g) auto
  have b: "broker_calls w' = broker_calls w"
    using GetISPMetrics_world(1) [of e "ubiquitiClient a" ctx "cli_MetricType (cli a)" ?w0]
    by (simp add: g logger_sel)
  have "filter (\<lambda>l. log_msg l = ''Failed to fetch and publish metrics'')
          (log_calls (snd ?g))
        = filter (\<lambda>l. log_msg l = ''Failed to fetch and publish metrics'') (log_calls w)"
    by (simp add: GetISPMetrics_def Let_def logger_sel split: option.splits sum.splits)
  with g have l: "filter (\<lambda>l. log_msg l = ''Failed to fetch and publish metrics'') (log_calls w')
        = filter (\<lambda>l. log_msg l = ''Failed to fetch and publish metrics'') (log_calls w)"
    by simp
  have "fetchAndPublishMetrics e a ctx w = Inr (Some (FetchISPMetricsFailed err), w')"
    by (simp add: fetchAndPublishMetrics_def g)
  with b l show ?thesis by blast
qed

lemma run_loop_every_fetch_fails:
  assumes "\<forall>h r. case http_Do e h r of
                    Inl netErr \<Rightarrow> True
                  | Inr resp \<Rightarrow> StatusCode resp \<noteq> 200 \<or> isl (json_Decode e (Body resp))"
  shows "fst (run_loop e a (map Tick cs) w) = Waiting
         \<and> broker_calls (snd (run_loop e a (map Tick cs) w)) = broker_calls w
         \<and> length (filter (\<lambda>l. log_msg l = ''Failed to fetch and publish metrics'')
                     (log_calls (snd (run_loop e a (map Tick cs) w))))
             = length (filter (\<lambda>l. log_msg l = ''Failed to fetch and publish metrics'')
                         (log_calls w)) + length cs"
proof (induction cs arbitrary: w)
  case Nil
  show ?case by simp
next
  case (Cons c cs)
  let ?req = "\<lparr>Method = ''GET'',
                URL = baseURL (ubiquitiClient a) @ ''/'' @ cli_MetricType (cli a),
                Header = [(''X-API-KEY'', apiKey (ubiquitiClient a)),
                          (''Accept'', ''application/json'')],
                req_ctx = c\<rparr>"
  from assms have "case http_Do e (http_calls w) ?req of
                     Inl netErr \<Rightarrow> True
                   | Inr resp \<Rightarrow> StatusCode resp \<noteq> 200 \<or> isl (json_Decode e (Body resp))"
    by blast
  from GetISPMetrics_failure [OF this] obtain err where
    "fst (GetISPMetrics e (ubiquitiClient a) c (cli_MetricType (cli a)) w) = Inl err"
    by blast
  from cycle_fetch_failed_log [OF this] obtain w' where
    c: "fetchAndPublishMetrics e a c w = Inr (Some (FetchISPMetricsFailed err), w')" and
    b: "broker_calls w' = broker_calls w" and
    l: "filter (\<lambda>l. log_msg l = ''Failed to fetch and publish metrics'') (log_calls w')
          = filter (\<lambda>l. log_msg l = ''Failed to fetch and publish metrics'') (log_calls w)"
    by blast
  let ?w2 = "logger ErrorLevel [(''error'', LErr (FetchISPMetricsFailed err))]
               ''Failed to fetch and publish metrics'' w'"
  have step: "run_loop e a (map Tick (c # cs)) w = run_loop e a (map Tick cs) ?w2"
    using c by simp
  have "length (filter (\<lambda>l. log_msg l = ''Failed to fetch and publish metrics'') (log_calls ?w2))
          = Suc (length (filter (\<lambda>l. log_msg l = ''Failed to fetch and publish metrics'')
                           (log_calls w)))"
    using l by (simp add: logger_sel)
  with Cons.IH [of ?w2] b show ?case
    unfolding step by (simp add: logger_sel)
qed

subsection \<open>Extraction\<close>

text \<open>
  Claim C1. When every series of the envelope has at least one period,
  \<^verbatim>\<open>extractLatestLatencyMetrics\<close> returns exactly one record per series, in the order of
  the series: the record at position \<open>i\<close> is built from the series at position \<open>i\<close>
  (its site and host id, the values of its first period, the \<open>i\<close>-th clock reading of
  the call). Nothing in the result depends on whether two series carry the same site
  id: each series has its own record.
\<close>

theorem extract_one_record_per_series:
  assumes "\<forall>d \<in> set (Data m). Periods d \<noteq> []"
  shows "extractLatestLatencyMetrics e m w =
           Inr (map (\<lambda>i. \<lparr>lm_SiteId = SiteId (Data m ! i),
                          lm_HostId = HostId (Data m ! i),
                          Timestamp = MetricTime (Periods (Data m ! i) ! 0),
                          lm_AvgLatency = AvgLatency (WAN (PData (Periods (Data m ! i) ! 0))),
                          lm_MaxLatency = MaxLatency (WAN (PData (Periods (Data m ! i) ! 0))),
                          lm_ISPName = ISPName (WAN (PData (Periods (Data m ! i) ! 0))),
                          lm_ISPAsn = ISPAsn (WAN (PData (Periods (Data m ! i) ! 0))),
                          PublishedAt = now e (clock_reads w + i)\<rparr>)
                    [0..<length (Data m)],
                w\<lparr>clock_reads := clock_reads w + length (Data m)\<rparr>)"
proof -
  from assms have all: "filter (\<lambda>d. Periods d \<noteq> []) (Data m) = Data m"
    by (simp add: filter_id_conv)
  show ?thesis
    unfolding extractLatestLatencyMetrics_def extract_loop_eq all map_enumerate_upt
    by (simp add: latest_record_def)
qed

text \<open>An envelope whose two series carry the same site id: two records, in order.\<close>

theorem extract_one_record_per_series_witness:
  "list_all (\<lambda>d. Periods d \<noteq> []) (Data envelope_two)
   \<and> extractLatestLatencyMetrics env_sample envelope_two world_empty =
       Inr ([\<lparr>lm_SiteId = ''s1'', lm_HostId = ''h1'', Timestamp = ''2025-01-01T00:05:00Z'',
              lm_AvgLatency = 12, lm_MaxLatency = 40, lm_ISPName = ''ispA'', lm_ISPAsn = ''AS1'',
              PublishedAt = 1000\<rparr>,
             \<lparr>lm_SiteId = ''s1'', lm_HostId = ''h2'', Timestamp = ''2025-01-01T00:05:00Z'',
              lm_AvgLatency = 7, lm_MaxLatency = 9, lm_ISPName = ''ispB'', lm_ISPAsn = ''AS2'',
              PublishedAt = 1001\<rparr>],
            world_empty\<lparr>clock_reads := 2\<rparr>)"
  using extract_one_record_per_series [of envelope_two env_sample world_empty]
  by (simp add: sample_defs)

text \<open>
  Claim C2. The record of a series with a period takes \<^verbatim>\<open>avgLatency\<close>, \<^verbatim>\<open>maxLatency\<close>,
  \<^verbatim>\<open>ispName\<close>, \<^verbatim>\<open>ispAsn\<close> and the timestamp (from \<^verbatim>\<open>metricTime\<close>) from the period at
  index 0, unchanged; and no other period is read: two envelopes whose series agree
  once every period but the first is forgotten give the same result.
\<close>

theorem extract_reads_first_period_only:
  "extractLatestLatencyMetrics e m w =
     Inr (map (\<lambda>(k, d). \<lparr>lm_SiteId = SiteId d,
                          lm_HostId = HostId d,
                          Timestamp = MetricTime (Periods d ! 0),
                          lm_AvgLatency = AvgLatency (WAN (PData (Periods d ! 0))),
                          lm_MaxLatency = MaxLatency (WAN (PData (Periods d ! 0))),
                          lm_ISPName = ISPName (WAN (PData (Periods d ! 0))),
                          lm_ISPAsn = ISPAsn (WAN (PData (Periods d ! 0))),
                          PublishedAt = now e k\<rparr>)
              (enumerate (clock_reads w) (filter (\<lambda>d. Periods d \<noteq> []) (Data m))),
          w\<lparr>clock_reads := clock_reads w + length (filter (\<lambda>d. Periods d \<noteq> []) (Data m))\<rparr>)
   \<and> (map first_period_only (Data m') = map first_period_only (Data m)
        \<longrightarrow> extractLatestLatencyMetrics e m' w = extractLatestLatencyMetrics e m w)"
proof (intro conjI impI)
  show "extractLatestLatencyMetrics e m w =
     Inr (map (\<lambda>(k, d). \<lparr>lm_SiteId = SiteId d,
                          lm_HostId = HostId d,
                          Timestamp = MetricTime (Periods d ! 0),
                          lm_AvgLatency = AvgLatency (WAN (PData (Periods d ! 0))),
                          lm_MaxLatency = MaxLatency (WAN (PData (Periods d ! 0))),
                          lm_ISPName = ISPName (WAN (PData (Periods d ! 0))),
                          lm_ISPAsn = ISPAsn (WAN (PData (Periods d ! 0))),
                          PublishedAt = now e k\<rparr>)
              (enumerate (clock_reads w) (filter (\<lambda>d. Periods d \<noteq> []) (Data m))),
          w\<lparr>clock_reads := clock_reads w + length (filter (\<lambda>d. Periods d \<noteq> []) (Data m))\<rparr>)"
    unfolding extractLatestLatencyMetrics_def extract_loop_eq
    by (simp add: latest_record_def)
next
  assume same: "map first_period_only (Data m') = map first_period_only (Data m)"
  have "extract_loop e (Data m') [] w = extract_loop e (map first_period_only (Data m')) [] w"
    by (simp only: extract_loop_first_period_only)
  also have "\<dots> = extract_loop e (Data m) [] w"
    by (simp only: same extract_loop_first_period_only)
  finally show "extractLatestLatencyMetrics e m' w = extractLatestLatencyMetrics e m w"
    by (simp only: extractLatestLatencyMetrics_def)
qed

text \<open>Dropping the older period of the first sample series changes nothing.\<close>

theorem extract_reads_first_period_only_witness:
  "map first_period_only (Data \<lparr>Data = [series_a\<lparr>Periods := [period_new]\<rparr>, series_dup]\<rparr>)
     = map first_period_only (Data envelope_two)
   \<and> extractLatestLatencyMetrics env_sample \<lparr>Data = [series_a\<lparr>Periods := [period_new]\<rparr>, series_dup]\<rparr> world_empty
     = extractLatestLatencyMetrics env_sample envelope_two world_empty"
  using extract_reads_first_period_only
    [of env_sample envelope_two world_empty "\<lparr>Data = [series_a\<lparr>Periods := [period_new]\<rparr>, series_dup]\<rparr>"]
  by (simp add: sample_defs first_period_only_def)

text \<open>
  Claim C7. The extraction never panics (the read of index 0 is guarded by the length
  test), it returns as many records as there are series with a period, so a series
  without periods contributes none, and removing such a series from the envelope
  leaves the result (records and clock readings) as it is.
\<close>

theorem extract_skips_empty_series:
  "(\<forall>pw. extractLatestLatencyMetrics e m w \<noteq> Inl pw)
   \<and> (\<exists>rs w'. extractLatestLatencyMetrics e m w = Inr (rs, w')
         \<and> length rs = length (filter (\<lambda>d. Periods d \<noteq> []) (Data m)))
   \<and> (Periods d = [] \<longrightarrow>
        extractLatestLatencyMetrics e \<lparr>Data = pre @ d # post\<rparr> w
          = extractLatestLatencyMetrics e \<lparr>Data = pre @ post\<rparr> w)"
  unfolding extractLatestLatencyMetrics_def extract_loop_eq
  by simp

text \<open>A series without periods between the two sample series.\<close>

theorem extract_skips_empty_series_witness:
  "Periods series_empty = []
   \<and> extractLatestLatencyMetrics env_sample \<lparr>Data = [series_a] @ series_empty # [series_dup]\<rparr> world_empty
     = extractLatestLatencyMetrics env_sample \<lparr>Data = [series_a] @ [series_dup]\<rparr> world_empty"
  using extract_skips_empty_series
    [of env_sample "\<lparr>Data = [series_a] @ series_empty # [series_dup]\<rparr>" world_empty series_empty "[series_a]" "[series_dup]"]
  by (simp add: series_empty_def)

text \<open>
  Claim C10. Two envelopes that differ only in the \<^verbatim>\<open>DownloadKbps\<close>, \<^verbatim>\<open>UploadKbps\<close>,
  \<^verbatim>\<open>Downtime\<close>, \<^verbatim>\<open>Uptime\<close> or \<^verbatim>\<open>PacketLoss\<close> values of their periods (that is, equal
  once these are reset) give the same records, when extracted in the same environment
  from the same state of the clock.
\<close>

theorem extract_ignores_non_latency_fields:
  assumes "map mask_series (Data m1) = map mask_series (Data m2)"
  shows "extractLatestLatencyMetrics e m1 w = extractLatestLatencyMetrics e m2 w"
proof -
  have "extract_loop e (Data m1) [] w = extract_loop e (map mask_series (Data m1)) [] w"
    by (simp only: extract_loop_mask_series)
  also have "\<dots> = extract_loop e (Data m2) [] w"
    by (simp only: assms extract_loop_mask_series)
  finally show ?thesis
    by (simp only: extractLatestLatencyMetrics_def)
qed

text \<open>The first sample period with other throughput, downtime, uptime and loss.\<close>

theorem extract_ignores_non_latency_fields_witness:
  "map mask_series (Data \<lparr>Data = [series_a\<lparr>Periods := [period_new_other_load, period_old]\<rparr>, series_dup]\<rparr>)
     = map mask_series (Data envelope_two)
   \<and> extractLatestLatencyMetrics env_sample
        \<lparr>Data = [series_a\<lparr>Periods := [period_new_other_load, period_old]\<rparr>, series_dup]\<rparr> world_empty
     = extractLatestLatencyMetrics env_sample envelope_two world_empty"
  using extract_ignores_non_latency_fields
    [of "\<lparr>Data = [series_a\<lparr>Periods := [period_new_other_load, period_old]\<rparr>, series_dup]\<rparr>"
        envelope_two env_sample world_empty]
  by (simp add: sample_defs mask_series_def mask_period_def mask_wan_def)

subsection \<open>The publish loop\<close>

text \<open>
  Claim C4. With the publisher that \<^verbatim>\<open>NewApp\<close> sets, the loop over a batch of records
  runs to its end whatever the broker answers (\<open>mqtt_Publish\<close> is arbitrary) and whatever
  \<^verbatim>\<open>json.Marshal\<close> does: the messages handed to the broker client are, record by
  record and in the order of the batch, the message of each record whose marshalling
  succeeds. When marshalling succeeds for every record, that is exactly one message per
  record.
\<close>

theorem publish_loop_attempts_every_record:
  assumes "mqttPublisher a = Some p"
  shows "\<exists>w'. publish_loop e a rs w = Inr w'
          \<and> broker_calls w' =
              broker_calls w @
              concat (map (\<lambda>r. case json_Marshal e r of
                                  Inl err \<Rightarrow> []
                                | Inr pl \<Rightarrow>
                                    [\<lparr>topic = MqttTopic (cli a) @ ''/'' @ lm_SiteId r @ ''/latency'',
                                      qos = 0, retained = False, payload = pl\<rparr>]) rs)
          \<and> ((\<forall>r \<in> set rs. json_Marshal e r = Inr (pl r)) \<longrightarrow>
               broker_calls w' =
                 broker_calls w @
                 map (\<lambda>r. \<lparr>topic = MqttTopic (cli a) @ ''/'' @ lm_SiteId r @ ''/latency'',
                           qos = 0, retained = False, payload = pl r\<rparr>) rs)"
proof -
  let ?one = "\<lambda>r. case json_Marshal e r of
                     Inl err \<Rightarrow> []
                   | Inr pl \<Rightarrow>
                       [\<lparr>topic = MqttTopic (cli a) @ ''/'' @ lm_SiteId r @ ''/latency'',
                         qos = 0, retained = False, payload = pl\<rparr>]"
  have one: "sent_for e (MqttTopic (cli a)) = ?one"
    by (rule ext) (simp add: sent_for_def latency_message_def split: sum.splits)
  obtain w' where
    loop: "publish_loop e a rs w = Inr w'" and
    calls: "broker_calls w' = broker_calls w @ concat (map ?one rs)"
    using publish_loop_Some [OF assms, of e rs w] unfolding one by blast
  have all: "concat (map ?one rs) =
               map (\<lambda>r. \<lparr>topic = MqttTopic (cli a) @ ''/'' @ lm_SiteId r @ ''/latency'',
                         qos = 0, retained = False, payload = pl r\<rparr>) rs"
    if "\<forall>r \<in> set rs. json_Marshal e r = Inr (pl r)"
    using that by (induction rs) simp_all
  from loop calls all show ?thesis by auto
qed

text \<open>
  The sample broker rejects every publish; both records still reach it, in order.
\<close>

theorem publish_loop_attempts_every_record_witness:
  "mqttPublisher app_sample = Some \<lparr>pub_topic = ''t''\<rparr>
   \<and> list_all (\<lambda>r. json_Marshal env_sample r = Inr (lm_SiteId r @ '':'' @ lm_HostId r))
         [latest_record series_a 5, latest_record series_dup 6]
   \<and> map (\<lambda>m. Error (mqtt_Publish env_sample [] m))
        (broker_calls (projr (publish_loop env_sample app_sample
           [latest_record series_a 5, latest_record series_dup 6] world_empty)))
       = [Some ''not connected'', Some ''not connected'']
   \<and> broker_calls (projr (publish_loop env_sample app_sample
        [latest_record series_a 5, latest_record series_dup 6] world_empty))
       = [\<lparr>topic = ''t/s1/latency'', qos = 0, retained = False, payload = ''s1:h1''\<rparr>,
          \<lparr>topic = ''t/s1/latency'', qos = 0, retained = False, payload = ''s1:h2''\<rparr>]"
  using publish_loop_attempts_every_record
    [of app_sample "\<lparr>pub_topic = ''t''\<rparr>" env_sample
        "[latest_record series_a 5, latest_record series_dup 6]" world_empty
        "\<lambda>r. lm_SiteId r @ '':'' @ lm_HostId r"]
  by (simp add: sample_defs latest_record_def PublishLatency_def logger_def Let_def)

text \<open>
  Claim C6. For every record and base topic, the message that \<^verbatim>\<open>PublishLatency\<close> hands
  to the broker client has the topic \<^verbatim>\<open>baseTopic + "/" + siteId + "/latency"\<close>: a function
  of the base topic and the site id alone. With the site id fixed the topic changes
  exactly when the base topic does, and with the base topic fixed exactly when the site
  id does; the other segments stay as they are.
\<close>

theorem publish_topic_is_base_site_latency:
  assumes "json_Marshal e r = Inr pl"
  shows "(\<exists>res w'. PublishLatency e (Some p) r baseTopic w = Inr (res, w')
            \<and> map topic (broker_calls w') =
                map topic (broker_calls w) @ [baseTopic @ ''/'' @ lm_SiteId r @ ''/latency''])
         \<and> ((baseTopic @ ''/'' @ lm_SiteId r @ ''/latency''
               = baseTopic' @ ''/'' @ lm_SiteId r @ ''/latency'') = (baseTopic = baseTopic'))
         \<and> ((baseTopic @ ''/'' @ lm_SiteId r @ ''/latency''
               = baseTopic @ ''/'' @ lm_SiteId r' @ ''/latency'') = (lm_SiteId r = lm_SiteId r'))"
proof -
  obtain res w' where
    "PublishLatency e (Some p) r baseTopic w = Inr (res, w')"
    "broker_calls w' = broker_calls w @ sent_for e baseTopic r"
    using PublishLatency_Some [of e p r baseTopic w] by blast
  with assms show ?thesis by (auto simp: sent_for_def latency_message_def)
qed

text \<open>The first sample record under the default base topic.\<close>

theorem publish_topic_is_base_site_latency_witness:
  "json_Marshal env_sample (latest_record series_a 5) = Inr ''s1:h1''
   \<and> map topic (broker_calls (snd (projr (PublishLatency env_sample (Some \<lparr>pub_topic = ''t''\<rparr>)
         (latest_record series_a 5) ''ubiquiti/isp-metrics'' world_empty))))
       = [''ubiquiti/isp-metrics/s1/latency'']"
  using publish_topic_is_base_site_latency
    [of env_sample "latest_record series_a 5" "''s1:h1''" "\<lparr>pub_topic = ''t''\<rparr>"
        "''ubiquiti/isp-metrics''" world_empty]
  by (simp add: sample_defs latest_record_def PublishLatency_def logger_def Let_def)

text \<open>
  Claim C8. \<^verbatim>\<open>PublishLatency\<close> hands the broker client the rendering of the JSON object
  of the record (its eight fields under their \<^verbatim>\<open>json\<close> names), with quality of service 0
  (at most once) and the retained flag false; and over a whole run (the initial cycle
  and any sequence of wake-ups) every message handed to the broker client is of this
  kind: quality of service 0, not retained, the payload the marshalling of a record, on
  that record's topic.
\<close>

theorem publish_is_qos0_not_retained:
  "(time_MarshalJSON e (PublishedAt r) = Inr ts \<longrightarrow>
      (\<exists>res w'. PublishLatency e (Some p) r baseTopic w = Inr (res, w')
          \<and> broker_calls w' =
              broker_calls w @
              [\<lparr>topic = baseTopic @ ''/'' @ lm_SiteId r @ ''/latency'',
                qos = 0, retained = False,
                payload = json_render e
                            (JObject
                               [(''siteId'', JString (lm_SiteId r)),
                                (''hostId'', JString (lm_HostId r)),
                                (''timestamp'', JString (Timestamp r)),
                                (''avgLatency'', JNumber (sint (lm_AvgLatency r))),
                                (''maxLatency'', JNumber (sint (lm_MaxLatency r))),
                                (''ispName'', JString (lm_ISPName r)),
                                (''ispAsn'', JString (lm_ISPAsn r)),
                                (''publishedAt'', JString ts)])\<rparr>]))
   \<and> (\<exists>new. broker_calls (snd (Run e a ctx0 evs w)) = broker_calls w @ new
         \<and> (\<forall>m \<in> set new.
               qos m = 0 \<and> retained m = False \<and>
               (\<exists>r. json_Marshal e r = Inr (payload m) \<and>
                    topic m = MqttTopic (cli a) @ ''/'' @ lm_SiteId r @ ''/latency'')))"
proof (intro conjI impI)
  assume "time_MarshalJSON e (PublishedAt r) = Inr ts"
  then have ok: "json_Marshal e r =
                   Inr (json_render e
                        (JObject
                           [(''siteId'', JString (lm_SiteId r)),
                            (''hostId'', JString (lm_HostId r)),
                            (''timestamp'', JString (Timestamp r)),
                            (''avgLatency'', JNumber (sint (lm_AvgLatency r))),
                            (''maxLatency'', JNumber (sint (lm_MaxLatency r))),
                            (''ispName'', JString (lm_ISPName r)),
                            (''ispAsn'', JString (lm_ISPAsn r)),
                            (''publishedAt'', JString ts)]))"
    by (simp add: json_Marshal_def)
  obtain res w' where
    "PublishLatency e (Some p) r baseTopic w = Inr (res, w')"
    "broker_calls w' = broker_calls w @ sent_for e baseTopic r"
    using PublishLatency_Some [of e p r baseTopic w] by blast
  with ok show "\<exists>res w'. PublishLatency e (Some p) r baseTopic w = Inr (res, w')
          \<and> broker_calls w' =
              broker_calls w @
              [\<lparr>topic = baseTopic @ ''/'' @ lm_SiteId r @ ''/latency'',
                qos = 0, retained = False,
                payload = json_render e
                            (JObject
                               [(''siteId'', JString (lm_SiteId r)),
                                (''hostId'', JString (lm_HostId r)),
                                (''timestamp'', JString (Timestamp r)),
                                (''avgLatency'', JNumber (sint (lm_AvgLatency r))),
                                (''maxLatency'', JNumber (sint (lm_MaxLatency r))),
                                (''ispName'', JString (lm_ISPName r)),
                                (''ispAsn'', JString (lm_ISPAsn r)),
                                (''publishedAt'', JString ts)])\<rparr>]"
    by (auto simp: sent_for_def latency_message_def)
next
  from Run_appended [of e a w ctx0 evs]
  show "\<exists>new. broker_calls (snd (Run e a ctx0 evs w)) = broker_calls w @ new
         \<and> (\<forall>m \<in> set new.
               qos m = 0 \<and> retained m = False \<and>
               (\<exists>r. json_Marshal e r = Inr (payload m) \<and>
                    topic m = MqttTopic (cli a) @ ''/'' @ lm_SiteId r @ ''/latency''))"
    unfolding appended_iff list_all_iff latency_publish_def by blast
qed

text \<open>One record, and a run of the initial cycle, one tick and the shutdown.\<close>

theorem publish_is_qos0_not_retained_witness:
  "time_MarshalJSON env_sample (PublishedAt (latest_record series_a 5)) = Inr ''T''
   \<and> broker_calls (snd (projr (PublishLatency env_sample (Some \<lparr>pub_topic = ''t''\<rparr>)
        (latest_record series_a 5) ''t'' world_empty)))
       = [\<lparr>topic = ''t/s1/latency'', qos = 0, retained = False, payload = ''s1:h1''\<rparr>]
   \<and> broker_calls (snd (Run env_sample app_sample Live [Tick Live, CtxDone] world_empty))
       = [\<lparr>topic = ''t/s1/latency'', qos = 0, retained = False, payload = ''s1:h1''\<rparr>,
          \<lparr>topic = ''t/s1/latency'', qos = 0, retained = False, payload = ''s1:h2''\<rparr>,
          \<lparr>topic = ''t/s1/latency'', qos = 0, retained = False, payload = ''s1:h1''\<rparr>,
          \<lparr>topic = ''t/s1/latency'', qos = 0, retained = False, payload = ''s1:h2''\<rparr>]"
  using publish_is_qos0_not_retained
    [of env_sample "latest_record series_a 5" "''T''" "\<lparr>pub_topic = ''t''\<rparr>" "''t''"
        world_empty app_sample Live "[Tick Live, CtxDone]"]
  by (simp add: sample_defs latest_record_def PublishLatency_def logger_def Let_def Run_def
        fetchAndPublishMetrics_def GetISPMetrics_def extractLatestLatencyMetrics_def index_def
        time_Now_def Disconnect_def)

subsection \<open>One cycle and the scheduler\<close>

text \<open>
  Claim C5. When the fetch of a cycle fails (the transport returns an error, the status
  is not 200, or the body does not decode), \<^verbatim>\<open>fetchAndPublishMetrics\<close> returns the
  wrapped error with no message handed to the broker and no record extracted (the clock
  is not read). The main loop, woken by the tick of such a cycle, appends the error
  entry \<^verbatim>\<open>Failed to fetch and publish metrics\<close> to the log, makes no broker call and
  no disconnect, and is waiting in its \<^verbatim>\<open>select\<close> again; a shutdown wake-up after it
  still returns nil, and the remaining wake-ups are handled from the state with the
  logged error. Where every fetch fails, after any number of ticks the loop is waiting,
  with one error entry per tick and no broker call.
\<close>

theorem fetch_failure_publishes_nothing:
  assumes "case http_Do e (http_calls w)
                  \<lparr>Method = ''GET'',
                   URL = baseURL (ubiquitiClient a) @ ''/'' @ cli_MetricType (cli a),
                   Header = [(''X-API-KEY'', apiKey (ubiquitiClient a)),
                             (''Accept'', ''application/json'')],
                   req_ctx = ctx\<rparr> of
             Inl netErr \<Rightarrow> True
           | Inr resp \<Rightarrow> StatusCode resp \<noteq> 200 \<or> isl (json_Decode e (Body resp))"
  shows "(\<exists>err w'. fetchAndPublishMetrics e a ctx w = Inr (Some (FetchISPMetricsFailed err), w')
           \<and> broker_calls w' = broker_calls w
           \<and> clock_reads w' = clock_reads w
           \<and> run_loop e a (Tick ctx # evs) w =
               run_loop e a evs
                 (logger ErrorLevel [(''error'', LErr (FetchISPMetricsFailed err))]
                    ''Failed to fetch and publish metrics'' w')
           \<and> fst (run_loop e a [Tick ctx] w) = Waiting
           \<and> log_calls (snd (run_loop e a [Tick ctx] w)) =
               log_calls w' @
               [\<lparr>log_level = ErrorLevel, log_msg = ''Failed to fetch and publish metrics'',
                 log_fields = [(''error'', LErr (FetchISPMetricsFailed err))]\<rparr>]
           \<and> broker_calls (snd (run_loop e a [Tick ctx] w)) = broker_calls w
           \<and> clock_reads (snd (run_loop e a [Tick ctx] w)) = clock_reads w
           \<and> broker_disconnects (snd (run_loop e a [Tick ctx] w)) = broker_disconnects w
           \<and> fst (run_loop e a [Tick ctx, CtxDone] w) = Returned None)
         \<and> ((\<forall>h r. case http_Do e h r of
                       Inl netErr \<Rightarrow> True
                     | Inr resp \<Rightarrow> StatusCode resp \<noteq> 200 \<or> isl (json_Decode e (Body resp)))
              \<longrightarrow> fst (run_loop e a (map Tick cs) w) = Waiting
                \<and> broker_calls (snd (run_loop e a (map Tick cs) w)) = broker_calls w
                \<and> length (filter (\<lambda>l. log_msg l = ''Failed to fetch and publish metrics'')
                            (log_calls (snd (run_loop e a (map Tick cs) w))))
                    = length (filter (\<lambda>l. log_msg l = ''Failed to fetch and publish metrics'')
                                (log_calls w)) + length cs)"
proof -
  obtain err where
    f: "fst (GetISPMetrics e (ubiquitiClient a) ctx (cli_MetricType (cli a)) w) = Inl err"
    using GetISPMetrics_failure [OF assms] by blast
  let ?w0 = "logger DebugLevel [] ''Fetching ISP metrics from Ubiquiti API'' w"
  let ?g = "GetISPMetrics e (ubiquitiClient a) ctx (cli_MetricType (cli a)) ?w0"
  from f have "fst ?g = Inl err" by (simp add: GetISPMetrics_logger)
  then obtain w' where g: "?g = (Inl err, w')" by (cases ?g) auto
  have w': "broker_calls w' = broker_calls w" "clock_reads w' = clock_reads w"
           "broker_disconnects w' = broker_disconnects w"
    using GetISPMetrics_world [of e "ubiquitiClient a" ctx "cli_MetricType (cli a)" ?w0]
    by (simp_all add: g logger_sel)
  have c: "fetchAndPublishMetrics e a ctx w = Inr (Some (FetchISPMetricsFailed err), w')"
    by (simp add: fetchAndPublishMetrics_def g)
  from c w' have first:
          "\<exists>err w'. fetchAndPublishMetrics e a ctx w = Inr (Some (FetchISPMetricsFailed err), w')
           \<and> broker_calls w' = broker_calls w
           \<and> clock_reads w' = clock_reads w
           \<and> run_loop e a (Tick ctx # evs) w =
               run_loop e a evs
                 (logger ErrorLevel [(''error'', LErr (FetchISPMetricsFailed err))]
                    ''Failed to fetch and publish metrics'' w')
           \<and> fst (run_loop e a [Tick ctx] w) = Waiting
           \<and> log_calls (snd (run_loop e a [Tick ctx] w)) =
               log_calls w' @
               [\<lparr>log_level = ErrorLevel, log_msg = ''Failed to fetch and publish metrics'',
                 log_fields = [(''error'', LErr (FetchISPMetricsFailed err))]\<rparr>]
           \<and> broker_calls (snd (run_loop e a [Tick ctx] w)) = broker_calls w
           \<and> clock_reads (snd (run_loop e a [Tick ctx] w)) = clock_reads w
           \<and> broker_disconnects (snd (run_loop e a [Tick ctx] w)) = broker_disconnects w
           \<and> fst (run_loop e a [Tick ctx, CtxDone] w) = Returned None"
    by (auto simp: logger_sel Let_def split: option.splits)
  from first run_loop_every_fetch_fails [of e a cs w] show ?thesis by blast
qed

text \<open>
  The API answers 500 to every request: the cycle fails with that status and nothing is
  published; after the tick the loop is waiting, its last log entry is the error, and a
  shutdown wake-up after it still returns nil; after three ticks it is waiting with
  three such entries and no broker call.
\<close>

theorem fetch_failure_publishes_nothing_witness:
  "(\<forall>h r. case http_Do env_down h r of
            Inl netErr \<Rightarrow> True
          | Inr resp \<Rightarrow> StatusCode resp \<noteq> 200 \<or> isl (json_Decode env_down (Body resp)))
   \<and> map_sum fst (\<lambda>(r, w'). (r, broker_calls w', clock_reads w'))
        (fetchAndPublishMetrics env_down app_sample Live world_empty)
     = Inr (Some (FetchISPMetricsFailed (ApiRequestFailed 500 ''down'')), [], 0)
   \<and> fst (run_loop env_down app_sample [Tick Live] world_empty) = Waiting
   \<and> last (log_calls (snd (run_loop env_down app_sample [Tick Live] world_empty)))
     = \<lparr>log_level = ErrorLevel, log_msg = ''Failed to fetch and publish metrics'',
        log_fields = [(''error'', LErr (FetchISPMetricsFailed (ApiRequestFailed 500 ''down'')))]\<rparr>
   \<and> broker_calls (snd (run_loop env_down app_sample [Tick Live] world_empty)) = []
   \<and> fst (run_loop env_down app_sample [Tick Live, CtxDone] world_empty) = Returned None
   \<and> fst (run_loop env_down app_sample (map Tick [Live, Live, Cancelled]) world_empty) = Waiting
   \<and> broker_calls (snd (run_loop env_down app_sample (map Tick [Live, Live, Cancelled])
        world_empty)) = []
   \<and> length (filter (\<lambda>l. log_msg l = ''Failed to fetch and publish metrics'')
        (log_calls (snd (run_loop env_down app_sample (map Tick [Live, Live, Cancelled])
           world_empty)))) = 3"
  using fetch_failure_publishes_nothing
    [of env_down world_empty app_sample Live "[]" "[Live, Live, Cancelled]"]
  by (simp add: env_down_def sample_defs fetchAndPublishMetrics_def GetISPMetrics_def
        logger_def Let_def Disconnect_def)

text \<open>
  Claim C9. When the fetch returns an envelope, \<^verbatim>\<open>fetchAndPublishMetrics\<close> returns nil
  whatever the broker and \<^verbatim>\<open>json.Marshal\<close> do with each record; its last log entry
  reports as \<^verbatim>\<open>sites_published\<close> the number of extracted records (the series with a
  period), and the main loop goes on without logging a failure of the cycle.
\<close>

theorem fetch_success_returns_nil:
  assumes "fst (GetISPMetrics e (ubiquitiClient a) ctx (cli_MetricType (cli a)) w) = Inr m"
      and "mqttPublisher a = Some p"
  shows "\<exists>w'. fetchAndPublishMetrics e a ctx w = Inr (None, w')
           \<and> last (log_calls w') =
               \<lparr>log_level = InfoLevel, log_msg = ''Latency metrics published successfully'',
                log_fields =
                  [(''sites_published'',
                    LLen (length (filter (\<lambda>d. Periods d \<noteq> []) (Data m))))]\<rparr>
           \<and> run_loop e a (Tick ctx # evs) w = run_loop e a evs w'"
proof -
  obtain w' where
    "fetchAndPublishMetrics e a ctx w = Inr (None, w')"
    "last (log_calls w') =
       \<lparr>log_level = InfoLevel, log_msg = ''Latency metrics published successfully'',
        log_fields = [(''sites_published'', LLen (length (extracted e m w)))]\<rparr>"
    using cycle_fetch_ok [OF assms] by blast
  then show ?thesis by (auto simp: extracted_def)
qed

text \<open>
  The sample broker rejects both publishes; the cycle returns nil and reports two
  sites published.
\<close>

theorem fetch_success_returns_nil_witness:
  "fst (GetISPMetrics env_sample (ubiquitiClient app_sample) Live (cli_MetricType (cli app_sample))
          world_empty) = Inr envelope_two
   \<and> mqttPublisher app_sample = Some \<lparr>pub_topic = ''t''\<rparr>
   \<and> map_sum fst (\<lambda>(r, w'). (r, map (\<lambda>m. Error (mqtt_Publish env_sample [] m)) (broker_calls w'),
                                 last (log_calls w')))
        (fetchAndPublishMetrics env_sample app_sample Live world_empty)
     = Inr (None, [Some ''not connected'', Some ''not connected''],
            \<lparr>log_level = InfoLevel, log_msg = ''Latency metrics published successfully'',
             log_fields = [(''sites_published'', LLen 2)]\<rparr>)"
  using fetch_success_returns_nil
    [of env_sample app_sample Live world_empty envelope_two "\<lparr>pub_topic = ''t''\<rparr>" "[]"]
  by (simp add: sample_defs fetchAndPublishMetrics_def GetISPMetrics_def logger_def Let_def
        extractLatestLatencyMetrics_def index_def time_Now_def PublishLatency_def)

subsection \<open>Shutdown\<close>

text \<open>
  Claim C3 says that a shutdown request arriving while a fetch or a publish is in flight
  does not cancel that operation. For the fetch this fails: \<^verbatim>\<open>GetISPMetrics\<close> builds its
  request with the context that the shutdown signal cancels, so the transport aborts a
  request in flight. In the sample environment, from the same state, the cycle whose
  request sees the context cancelled fails with \<^verbatim>\<open>context canceled\<close> and publishes
  nothing, while the cycle whose request sees it live publishes both records.
\<close>

theorem shutdown_cancels_fetch_in_flight:
  "fst (GetISPMetrics env_sample (ubiquitiClient app_sample) Cancelled ''5m'' world_empty)
     = Inl (MakeRequestFailed ''context canceled'')
   \<and> fst (GetISPMetrics env_sample (ubiquitiClient app_sample) Live ''5m'' world_empty)
     = Inr envelope_two
   \<and> \<not> isl (fetchAndPublishMetrics env_sample app_sample Cancelled world_empty)
   \<and> fst (projr (fetchAndPublishMetrics env_sample app_sample Cancelled world_empty))
     = Some (FetchISPMetricsFailed (MakeRequestFailed ''context canceled''))
   \<and> broker_calls (snd (projr (fetchAndPublishMetrics env_sample app_sample Cancelled world_empty)))
     = []
   \<and> \<not> isl (fetchAndPublishMetrics env_sample app_sample Live world_empty)
   \<and> fst (projr (fetchAndPublishMetrics env_sample app_sample Live world_empty)) = None
   \<and> map payload (broker_calls (snd (projr
        (fetchAndPublishMetrics env_sample app_sample Live world_empty)))) = [''s1:h1'', ''s1:h2'']"
  by (simp add: sample_defs latest_record_def PublishLatency_def logger_def Let_def
        fetchAndPublishMetrics_def GetISPMetrics_def extractLatestLatencyMetrics_def index_def
        time_Now_def)

text \<open>
  Claim C3 as amended. The publish calls take no context and the per-record loop does
  not look at it: once the fetch has returned an envelope, the cycle returns nil and
  hands the broker the message of every extracted record, whatever the context shows
  (also when shutdown has been requested). The scheduler sees a shutdown request only at
  its \<^verbatim>\<open>select\<close>: as long as the wake-ups are ticks the loop keeps waiting, and at the
  first \<open>CtxDone\<close> wake-up it disconnects once and returns nil. (The fetch is the one
  operation bound to the shutdown context.)
\<close>

theorem shutdown_seen_only_at_select:
  assumes "mqttPublisher a = Some p" and "CtxDone \<notin> set evs"
  shows "(fst (GetISPMetrics e (ubiquitiClient a) ctx (cli_MetricType (cli a)) w) = Inr m \<longrightarrow>
            (\<exists>w'. fetchAndPublishMetrics e a ctx w = Inr (None, w')
               \<and> broker_calls w' =
                   broker_calls w @
                   concat (map (\<lambda>r. case json_Marshal e r of
                                       Inl err \<Rightarrow> []
                                     | Inr pl \<Rightarrow>
                                         [\<lparr>topic = MqttTopic (cli a) @ ''/'' @ lm_SiteId r @ ''/latency'',
                                           qos = 0, retained = False, payload = pl\<rparr>])
                             (extracted e m w))))
         \<and> fst (run_loop e a evs w) = Waiting
         \<and> fst (run_loop e a (evs @ CtxDone # later) w) = Returned None
         \<and> broker_disconnects (snd (run_loop e a (evs @ CtxDone # later) w))
             = broker_disconnects w @ [250]"
proof -
  have one: "sent_for e (MqttTopic (cli a)) =
               (\<lambda>r. case json_Marshal e r of
                       Inl err \<Rightarrow> []
                     | Inr pl \<Rightarrow>
                         [\<lparr>topic = MqttTopic (cli a) @ ''/'' @ lm_SiteId r @ ''/latency'',
                           qos = 0, retained = False, payload = pl\<rparr>])"
    by (rule ext) (simp add: sent_for_def latency_message_def split: sum.splits)
  have "\<exists>w'. fetchAndPublishMetrics e a ctx w = Inr (None, w')
               \<and> broker_calls w' =
                   broker_calls w @ concat (map (sent_for e (MqttTopic (cli a))) (extracted e m w))"
    if "fst (GetISPMetrics e (ubiquitiClient a) ctx (cli_MetricType (cli a)) w) = Inr m"
    using cycle_fetch_ok [OF that assms(1)] by blast
  with run_loop_ticks [OF assms, of e w] run_loop_done [OF assms, of e later w]
  show ?thesis unfolding one by blast
qed

text \<open>
  A tick whose cycle runs with the context already cancelled, with a transport that
  had its response complete: both records are published; the loop returns at the
  shutdown wake-up after it.
\<close>

theorem shutdown_seen_only_at_select_witness:
  "mqttPublisher app_sample = Some \<lparr>pub_topic = ''t''\<rparr>
   \<and> CtxDone \<notin> set [Tick Cancelled]
   \<and> fst (GetISPMetrics env_deaf (ubiquitiClient app_sample) Cancelled
            (cli_MetricType (cli app_sample)) world_empty) = Inr envelope_two
   \<and> map payload (broker_calls (snd (projr
        (fetchAndPublishMetrics env_deaf app_sample Cancelled world_empty)))) = [''s1:h1'', ''s1:h2'']
   \<and> fst (run_loop env_deaf app_sample [Tick Cancelled] world_empty) = Waiting
   \<and> fst (run_loop env_deaf app_sample ([Tick Cancelled] @ CtxDone # []) world_empty)
       = Returned None
   \<and> broker_disconnects (snd (run_loop env_deaf app_sample ([Tick Cancelled] @ CtxDone # [])
        world_empty)) = [250]"
  using shutdown_seen_only_at_select
    [of app_sample "\<lparr>pub_topic = ''t''\<rparr>" "[Tick Cancelled]" env_deaf Cancelled world_empty
        envelope_two "[]"]
  by (simp add: env_deaf_def sample_defs latest_record_def extracted_def PublishLatency_def
        logger_def Let_def fetchAndPublishMetrics_def GetISPMetrics_def
        extractLatestLatencyMetrics_def index_def time_Now_def Disconnect_def)

end
